theory Spec2Isabelle
  imports Complex_Main "HOL-Library.AList"
begin

section \<open>Reference service: parser (crf.py) and resolver (authors.py, common.py)\<close>

text \<open>
  A shallow embedding of the parts of the reference service that its specification
  makes claims about. Python strings are \<open>string\<close>, Python's unbounded integers are
  \<open>int\<close>, a dictionary is an association list in insertion order (a key is stored
  once; assigning to a key that is present keeps its position), and every exception the
  modelled code can raise is a value of \<open>py_error\<close>, returned as \<open>Inl\<close>.

  The package loads on Python 3 only (common.py imports \<open>filterfalse\<close> from
  itertools), so the model follows Python 3: \<open>filter\<close> gives an iterator, which has
  neither an index nor a length, and the keys of a dictionary have no \<open>index\<close> method.
  The texts are ASCII texts: for them the classes \<open>\w\<close>, \<open>\d\<close> and \<open>\s\<close> of the
  regex library and the string methods are the ones defined below.
\<close>

subsection \<open>Exceptions and dictionaries\<close>

datatype py_error =
    IndexError
  | KeyError
  | StopIteration
  | AssertionError
  | TypeError
  | AttributeError
  | NotImplementedError
  | ValueError
  | Undecidable

type_synonym ('k, 'v) dict = "('k \<times> 'v) list"

definition dict_in :: "'k \<Rightarrow> ('k, 'v) dict \<Rightarrow> bool" where
  "dict_in k d = (k \<in> set (map fst d))"

definition dict_set :: "'k \<Rightarrow> 'v \<Rightarrow> ('k, 'v) dict \<Rightarrow> ('k, 'v) dict" where
  "dict_set k v d = AList.update k v d"

definition dict_getitem :: "('k, 'v) dict \<Rightarrow> 'k \<Rightarrow> py_error + 'v" where
  "dict_getitem d k = (case map_of d k of None \<Rightarrow> Inl KeyError | Some v \<Rightarrow> Inr v)"

subsection \<open>CRFClassifier.encoder and CRFClassifier.decoder\<close>

text \<open>
  \<^verbatim>\<open>
  def encoder(self, labels):
      label_code = {}
      numeric = -1
      for label in labels:
          for l in label:
              if (numeric >= 0 and l in label_code):
                  continue
              else:
                  numeric = numeric + 1
                  label_code[l] = numeric
      return label_code
  \<close>
  The state of the two loops is the pair of \<open>label_code\<close> and \<open>numeric\<close>.
\<close>

type_synonym label_code = "(string, int) dict"

definition encoder_step :: "label_code \<times> int \<Rightarrow> string \<Rightarrow> label_code \<times> int" where
  "encoder_step st l =
     (case st of (label_code, numeric) \<Rightarrow>
        if numeric \<ge> 0 \<and> dict_in l label_code then (label_code, numeric)
        else (dict_set l (numeric + 1) label_code, numeric + 1))"

definition encoder_label :: "string list \<Rightarrow> label_code \<times> int \<Rightarrow> label_code \<times> int" where
  "encoder_label label st = fold (\<lambda>l st. encoder_step st l) label st"

definition encoder_loop :: "string list list \<Rightarrow> label_code \<times> int" where
  "encoder_loop labels = fold encoder_label labels ([], - 1)"

definition encoder :: "string list list \<Rightarrow> label_code" where
  "encoder labels = fst (encoder_loop labels)"

text \<open>
  \<^verbatim>\<open>
  def decoder(self, numeric_label):
      labels = []
      for nl in numeric_label:
          key = next(key for key, value in self.label_code.items() if value == nl)
          labels.append(key)
      return labels
  \<close>
  \<open>next\<close> on an exhausted generator raises StopIteration.
\<close>

fun next_key :: "label_code \<Rightarrow> int \<Rightarrow> py_error + string" where
  "next_key [] nl = Inl StopIteration"
| "next_key ((key, val) # items) nl = (if val = nl then Inr key else next_key items nl)"

fun decoder :: "label_code \<Rightarrow> int list \<Rightarrow> py_error + string list" where
  "decoder label_code [] = Inr []"
| "decoder label_code (nl # numeric_label) =
     (case next_key label_code nl of
        Inl e \<Rightarrow> Inl e
      | Inr key \<Rightarrow>
          (case decoder label_code numeric_label of
             Inl e \<Rightarrow> Inl e
           | Inr labels \<Rightarrow> Inr (key # labels)))"

text \<open>
  The numeric label sequence of one reference, as format_training_data builds it:
  \<^verbatim>\<open>
  numeric_label = []
  for l in label:
      numeric_label.append(label_code[l])
  \<close>
\<close>

fun numeric_label :: "label_code \<Rightarrow> string list \<Rightarrow> py_error + int list" where
  "numeric_label label_code [] = Inr []"
| "numeric_label label_code (l # label) =
     (case dict_getitem label_code l of
        Inl e \<Rightarrow> Inl e
      | Inr c \<Rightarrow>
          (case numeric_label label_code label of
             Inl e \<Rightarrow> Inl e
           | Inr cs \<Rightarrow> Inr (c # cs)))"

text \<open>First-seen order of a sequence: every element once, at its first position.\<close>

definition first_seen :: "'a list \<Rightarrow> 'a list" where
  "first_seen xs = rev (remdups (rev xs))"

text \<open>
  The invariant of the encoder's loops: \<open>numeric\<close> is the last code given, and the
  codes stored are \<open>0, 1, \<dots>\<close> in insertion order.
\<close>

definition enc_inv :: "label_code \<times> int \<Rightarrow> bool" where
  "enc_inv st = (snd st = int (length (fst st)) - 1 \<and> map snd (fst st) = map int [0..<length (fst st)])"

subsection \<open>Evidences (common.py) and add_author_evidence (authors.py)\<close>

text \<open>
  Scores are Python floats; the model takes them as real numbers, so the order
  comparisons of the code are the comparisons of \<open>real\<close> (rounding error and NaN are
  outside the model).
  \<^verbatim>\<open>
  class Evidences(object):
      def __init__(self):
          self.evidences = []
          self.labels = []
          self.score = None
          self.min_score = current_app.config['EVIDENCE_SCORE_RANGE'][0]
          self.max_score = current_app.config['EVIDENCE_SCORE_RANGE'][1]
  \<close>
\<close>

record config =
  EVIDENCE_SCORE_RANGE :: "real \<times> real"
  MISSING_FIRST_AUTHOR_FACTOR :: real

record Evidences =
  evidences :: "real list"
  ev_labels :: "string list"
  ev_score :: "real option"
  min_score :: real
  max_score :: real

definition Evidences_init :: "config \<Rightarrow> Evidences" where
  "Evidences_init cfg =
     \<lparr>evidences = [], ev_labels = [], ev_score = None,
      min_score = fst (EVIDENCE_SCORE_RANGE cfg), max_score = snd (EVIDENCE_SCORE_RANGE cfg)\<rparr>"

text \<open>
  \<^verbatim>\<open>
  def add_evidence(self, evidence, label):
      assert self.min_score <= evidence <= self.max_score
      self.score = None
      self.evidences.append(evidence)
      self.labels.append(label)
  \<close>
\<close>

definition add_evidence :: "Evidences \<Rightarrow> real \<Rightarrow> string \<Rightarrow> py_error + Evidences" where
  "add_evidence self evidence label =
     (if min_score self \<le> evidence \<and> evidence \<le> max_score self
      then Inr (self\<lparr>ev_score := None,
                     evidences := evidences self @ [evidence],
                     ev_labels := ev_labels self @ [label]\<rparr>)
      else Inl AssertionError)"

text \<open>
  \<^verbatim>\<open>
  def __add__(self, other):
      for ev in other.evidences:
          assert self.min_score <= ev <= self.max_score
      self.score = None
      self.evidences += other.evidences
      self.labels +=other.labels
      return self
  \<close>
  The assertions run over all of \<open>other.evidences\<close> before anything is changed.
\<close>

fun assert_in_range :: "Evidences \<Rightarrow> real list \<Rightarrow> py_error + unit" where
  "assert_in_range self [] = Inr ()"
| "assert_in_range self (ev # evs) =
     (if min_score self \<le> ev \<and> ev \<le> max_score self then assert_in_range self evs
      else Inl AssertionError)"

definition Evidences_add :: "Evidences \<Rightarrow> Evidences \<Rightarrow> py_error + Evidences" where
  "Evidences_add self other =
     (case assert_in_range self (evidences other) of
        Inl e \<Rightarrow> Inl e
      | Inr _ \<Rightarrow>
          Inr (self\<lparr>ev_score := None,
                    evidences := evidences self @ evidences other,
                    ev_labels := ev_labels self @ ev_labels other\<rparr>))"

text \<open>
  \<open>round(x, 2)\<close>: the nearest multiple of 1/100, and the even one of the two nearest
  when \<open>x\<close> lies exactly between them (the rounding error of the float that Python
  rounds is outside the model).
\<close>

definition round_half_even :: "real \<Rightarrow> int" where
  "round_half_even y =
     (if y - real_of_int \<lfloor>y\<rfloor> < 1 / 2 then \<lfloor>y\<rfloor>
      else if y - real_of_int \<lfloor>y\<rfloor> > 1 / 2 then \<lfloor>y\<rfloor> + 1
      else if even \<lfloor>y\<rfloor> then \<lfloor>y\<rfloor>
      else \<lfloor>y\<rfloor> + 1)"

definition round2 :: "real \<Rightarrow> real" where
  "round2 x = real_of_int (round_half_even (x * 100)) / 100"

definition str_replace_char :: "char \<Rightarrow> char \<Rightarrow> string \<Rightarrow> string" where
  "str_replace_char a b s = map (\<lambda>c. if c = a then b else c) s"

text \<open>
  \<^verbatim>\<open>
  def add_author_evidence(evidences, ref_authors, ads_authors, ads_first_author, has_etal=False):
      ref_authors = ref_authors.replace('-', ' ')
      if len(ref_authors) == 0 or len(ads_authors) == 0:
          return
      (missing_in_ref, missing_in_ads, matching_authors, first_author_missing
       ) = count_matching_authors(ref_authors, ads_authors, ads_first_author)
      if has_etal:
          normalizer = float(matching_authors + missing_in_ads)
      else:
          normalizer = float(len(ads_authors))
      if first_author_missing:
          matching_authors *= current_app.config['MISSING_FIRST_AUTHOR_FACTOR']
      if normalizer != 0:
          score = round((matching_authors - missing_in_ads) / normalizer, 2)
      else:
          score = 0
      evidences.add_evidence(max(current_app.config['EVIDENCE_SCORE_RANGE'][0],
          min(current_app.config['EVIDENCE_SCORE_RANGE'][1], score)), "authors")
  \<close>
  \<open>count_matching_authors\<close> compares names with regular expressions built from the data
  and with the edit distance of an external library; it is the parameter \<open>count\<close>,
  any function from the three arguments to the tuple of counts (or to an exception).
\<close>

type_synonym author_counts = "int \<times> int \<times> int \<times> bool"

definition author_score :: "config \<Rightarrow> author_counts \<Rightarrow> nat \<Rightarrow> bool \<Rightarrow> real" where
  "author_score cfg counts n_ads has_etal =
     (case counts of (missing_in_ref, missing_in_ads, matching_authors, first_author_missing) \<Rightarrow>
        let normalizer = (if has_etal then real_of_int (matching_authors + missing_in_ads)
                          else real n_ads);
            matching_authors = (if first_author_missing
                                then real_of_int matching_authors * MISSING_FIRST_AUTHOR_FACTOR cfg
                                else real_of_int matching_authors)
        in if normalizer \<noteq> 0
           then round2 ((matching_authors - real_of_int missing_in_ads) / normalizer)
           else 0)"

definition add_author_evidence ::
  "config \<Rightarrow> (string \<Rightarrow> string list \<Rightarrow> string option \<Rightarrow> py_error + author_counts) \<Rightarrow>
   Evidences \<Rightarrow> string \<Rightarrow> string list \<Rightarrow> string option \<Rightarrow> bool \<Rightarrow> py_error + Evidences" where
  "add_author_evidence cfg count evs ref_authors ads_authors ads_first_author has_etal =
     (let ref_authors = str_replace_char (CHR ''-'') (CHR '' '') ref_authors in
      if length ref_authors = 0 \<or> length ads_authors = 0 then Inr evs
      else
        (case count ref_authors ads_authors ads_first_author of
           Inl e \<Rightarrow> Inl e
         | Inr counts \<Rightarrow>
             let score = author_score cfg counts (length ads_authors) has_etal
             in add_evidence evs
                  (max (fst (EVIDENCE_SCORE_RANGE cfg)) (min (snd (EVIDENCE_SCORE_RANGE cfg)) score))
                  ''authors''))"

subsection \<open>CRFClassifier.create_crf\<close>

text \<open>
  \<^verbatim>\<open>
  score = 0
  # only need to iterate through if fold was generated
  num_tries = 10 if generate_fold else 1
  while (score <= 0.90) and (num_tries > 0):
      try:
          X_train, y_train = self.get_train_data()
          self.train(X_train, y_train)
          X_test, y_test = self.get_test_data()
          score = self.evaluate(X_test, y_test)
      except Exception as e:
          current_app.logger.error('Exception: %s'%(str(e)))
          current_app.logger.error(traceback.format_exc())
          pass
      num_tries -= 1
  return (score > 0)
  \<close>
  Fitting and scoring are done by the external learner. What the body of the
  \<open>try\<close> does in the attempt number \<open>k\<close> (counted from 0) is given by \<open>attempt k\<close>:
  it raises, or it assigns the held-out score. The state of the loop is the score, the
  number of attempts made and the attempts whose exception was logged.
\<close>

datatype attempt = Raises | Scores real

record crf_run =
  final_score :: real
  attempts :: nat
  logged :: "nat list"

fun create_crf_loop :: "(nat \<Rightarrow> attempt) \<Rightarrow> nat \<Rightarrow> crf_run \<Rightarrow> crf_run" where
  "create_crf_loop attempt 0 st = st"
| "create_crf_loop attempt (Suc num_tries) st =
     (if final_score st \<le> 0.90
      then create_crf_loop attempt num_tries
             (case attempt (attempts st) of
                Raises \<Rightarrow> st\<lparr>attempts := attempts st + 1, logged := logged st @ [attempts st]\<rparr>
              | Scores s \<Rightarrow> st\<lparr>final_score := s, attempts := attempts st + 1\<rparr>)
      else st)"

definition create_crf_run :: "(nat \<Rightarrow> attempt) \<Rightarrow> bool \<Rightarrow> crf_run" where
  "create_crf_run attempt generate_fold =
     create_crf_loop attempt (if generate_fold then 10 else 1)
       \<lparr>final_score = 0, attempts = 0, logged = []\<rparr>"

definition create_crf :: "(nat \<Rightarrow> attempt) \<Rightarrow> bool \<Rightarrow> bool" where
  "create_crf attempt generate_fold = (final_score (create_crf_run attempt generate_fold) > 0)"

text \<open>
  The value of \<open>score\<close> after the first \<open>k\<close> attempts, had all of them been made: the
  score of the latest attempt that did not raise, and 0 when there is none.
\<close>

fun score_after :: "(nat \<Rightarrow> attempt) \<Rightarrow> nat \<Rightarrow> real" where
  "score_after attempt 0 = 0"
| "score_after attempt (Suc k) =
     (case attempt k of Raises \<Rightarrow> score_after attempt k | Scores s \<Rightarrow> s)"

text \<open>The state of the loop of create\_crf after \<open>k\<close> attempts.\<close>

definition crf_state :: "(nat \<Rightarrow> attempt) \<Rightarrow> nat \<Rightarrow> crf_run" where
  "crf_state attempt k =
     \<lparr>final_score = score_after attempt k, attempts = k,
      logged = filter (\<lambda>j. attempt j = Raises) [0..<k]\<rparr>"

subsection \<open>get\_author\_pattern (authors.py)\<close>



text \<open>
  The ASCII characters that \<open>str.isspace\<close>, \<open>strip\<close>, \<open>split\<close> and the class \<open>\s\<close> take as
  whitespace: the blank, tab to carriage return, and the four separators 0x1C to 0x1F.
\<close>

definition is_space :: "char \<Rightarrow> bool" where
  "is_space c = (c \<in> set [CHR '' '', CHR 0x09, CHR 0x0A, CHR 0x0B, CHR 0x0C, CHR 0x0D,
                          CHR 0x1C, CHR 0x1D, CHR 0x1E, CHR 0x1F])"

definition str_strip :: "string \<Rightarrow> string" where
  "str_strip s = rev (dropWhile is_space (rev (dropWhile is_space s)))"

fun str_join :: "string \<Rightarrow> string list \<Rightarrow> string" where
  "str_join sep [] = []"
| "str_join sep [x] = x"
| "str_join sep (x # y # ys) = x @ sep @ str_join sep (y # ys)"












text \<open>
  \<^verbatim>\<open>
  def get_collaborators(ref_string):
      match = COLLABORATION_PAT.findall(COMMA_BEFORE_AND.sub(r',\2', ref_string))
      if len(match) > 0:
          collaboration = match[-1]
          return ref_string.find(collaboration), len(collaboration)
      return 0, 0
  \<close>
  \<open>collaborations s\<close> stands for the list that \<open>findall\<close> returns here; \<open>str.find\<close> gives
  the first position of a substring and -1 when there is none.
\<close>

fun str_find_from :: "nat \<Rightarrow> string \<Rightarrow> string \<Rightarrow> int" where
  "str_find_from i [] sub = (if sub = [] then int i else - 1)"
| "str_find_from i (c # s) sub =
     (if take (length sub) (c # s) = sub then int i else str_find_from (i + 1) s sub)"

definition str_find :: "string \<Rightarrow> string \<Rightarrow> int" where
  "str_find s sub = str_find_from 0 s sub"





subsection \<open>Strings\<close>

text \<open>
  Strings are sequences of one-byte characters; the character classes are the ASCII
  ones (\<open>\w\<close> is a letter, a digit or the underscore).
\<close>

definition char_between :: "char \<Rightarrow> char \<Rightarrow> char \<Rightarrow> bool" where
  "char_between lo hi c = ((of_char lo :: nat) \<le> of_char c \<and> (of_char c :: nat) \<le> of_char hi)"

definition is_digit :: "char \<Rightarrow> bool" where
  "is_digit c = char_between (CHR ''0'') (CHR ''9'') c"

definition is_upper :: "char \<Rightarrow> bool" where
  "is_upper c = char_between (CHR ''A'') (CHR ''Z'') c"

definition is_lower :: "char \<Rightarrow> bool" where
  "is_lower c = char_between (CHR ''a'') (CHR ''z'') c"

definition is_alpha :: "char \<Rightarrow> bool" where
  "is_alpha c = (is_upper c \<or> is_lower c)"

definition is_word :: "char \<Rightarrow> bool" where
  "is_word c = (is_alpha c \<or> is_digit c \<or> c = CHR ''_'')"

definition char_lower :: "char \<Rightarrow> char" where
  "char_lower c = (if is_upper c then char_of (of_char c + (32 :: nat)) else c)"

definition str_lower :: "string \<Rightarrow> string" where
  "str_lower s = map char_lower s"

text \<open>\<open>s.isdigit()\<close>, \<open>s.isnumeric()\<close> and \<open>s.isalpha()\<close>: not empty, and all characters of the kind.\<close>

definition str_isdigit :: "string \<Rightarrow> bool" where
  "str_isdigit s = (s \<noteq> [] \<and> list_all is_digit s)"

definition str_isalpha :: "string \<Rightarrow> bool" where
  "str_isalpha s = (s \<noteq> [] \<and> list_all is_alpha s)"

definition digit_val :: "char \<Rightarrow> int" where
  "digit_val c = int (of_char c) - 48"

definition str_to_int :: "string \<Rightarrow> int" where
  "str_to_int s = foldl (\<lambda>acc c. 10 * acc + digit_val c) 0 s"


definition str_endswith :: "string \<Rightarrow> string \<Rightarrow> bool" where
  "str_endswith s p = (length p \<le> length s \<and> drop (length s - length p) s = p)"


text \<open>\<open>s.split(sep, 1)[0]\<close>: the part of \<open>s\<close> before the first \<open>sep\<close>, all of \<open>s\<close> when there is none.\<close>

definition str_before :: "string \<Rightarrow> string \<Rightarrow> string" where
  "str_before s sep = (let i = str_find s sep in if i < 0 then s else take (nat i) s)"

subsection \<open>Regular expressions of the re library\<close>

text \<open>
  The patterns of the source are values of \<open>regex\<close>, and \<open>rx\<close> is the backtracking
  matcher of the library: from a position it gives all ways to match, in the order in
  which backtracking tries them (a repetition is greedy, an alternation tries its left
  branch first), so the head of the list is the match that the library reports. A
  position of the subject is the index, the character before it (for \<open>\b\<close> and \<open>^\<close>), the
  text from it on, and the groups captured so far.
\<close>

datatype regex =
    Eps
  | Chr "char \<Rightarrow> bool"
  | Seq regex regex
  | Alt regex regex
  | Star regex
  | Rep nat nat regex
  | Group nat regex
  | WordB
  | NotWordB
  | Bol
  | Eol
  | Look regex

datatype mstate = MState (ms_pos: nat) (ms_prev: "char option") (ms_rest: string)
  (ms_groups: "(nat \<times> string) list")

definition at_word_boundary :: "mstate \<Rightarrow> bool" where
  "at_word_boundary st =
     ((case ms_prev st of None \<Rightarrow> False | Some c \<Rightarrow> is_word c)
      \<noteq> (case ms_rest st of [] \<Rightarrow> False | c # _ \<Rightarrow> is_word c))"

fun star_run :: "(mstate \<Rightarrow> mstate list) \<Rightarrow> nat \<Rightarrow> mstate \<Rightarrow> mstate list" where
  "star_run f 0 st = [st]"
| "star_run f (Suc n) st =
     concat (map (\<lambda>st'. if length (ms_rest st') < length (ms_rest st) then star_run f n st' else [])
               (f st)) @ [st]"

fun rep_run :: "(mstate \<Rightarrow> mstate list) \<Rightarrow> nat \<Rightarrow> nat \<Rightarrow> mstate \<Rightarrow> mstate list" where
  "rep_run f lo 0 st = (if lo = 0 then [st] else [])"
| "rep_run f lo (Suc hi) st =
     concat (map (rep_run f (lo - 1) hi) (f st)) @ (if lo = 0 then [st] else [])"

primrec rx :: "regex \<Rightarrow> mstate \<Rightarrow> mstate list" where
  "rx Eps st = [st]"
| "rx (Chr P) st =
     (case ms_rest st of
        [] \<Rightarrow> []
      | c # t \<Rightarrow> if P c then [MState (ms_pos st + 1) (Some c) t (ms_groups st)] else [])"
| "rx (Seq a b) st = concat (map (rx b) (rx a st))"
| "rx (Alt a b) st = rx a st @ rx b st"
| "rx (Star a) st = star_run (rx a) (length (ms_rest st)) st"
| "rx (Rep lo hi a) st = rep_run (rx a) lo hi st"
| "rx (Group g a) st =
     map (\<lambda>st'. MState (ms_pos st') (ms_prev st') (ms_rest st')
                  (AList.update g (take (ms_pos st' - ms_pos st) (ms_rest st)) (ms_groups st')))
       (rx a st)"
| "rx WordB st = (if at_word_boundary st then [st] else [])"
| "rx NotWordB st = (if at_word_boundary st then [] else [st])"
| "rx Bol st = (if ms_prev st = None then [st] else [])"
| "rx Eol st = (if ms_rest st = [] \<or> ms_rest st = [CHR 0x0A] then [st] else [])"
| "rx (Look a) st = (if rx a st = [] then [] else [st])"

text \<open>Pattern syntax: a literal text, \<open>r?\<close>, \<open>r+\<close>, a sequence, an alternation of several.\<close>

definition Lit :: "string \<Rightarrow> regex" where
  "Lit s = foldr (\<lambda>c r. Seq (Chr (\<lambda>x. x = c)) r) s Eps"

definition Lit_ci :: "string \<Rightarrow> regex" where
  "Lit_ci s = foldr (\<lambda>c r. Seq (Chr (\<lambda>x. char_lower x = char_lower c)) r) s Eps"

definition Opt :: "regex \<Rightarrow> regex" where
  "Opt r = Alt r Eps"

definition Plus :: "regex \<Rightarrow> regex" where
  "Plus r = Seq r (Star r)"

definition Seqs :: "regex list \<Rightarrow> regex" where
  "Seqs rs = foldr Seq rs Eps"

fun Alts :: "regex list \<Rightarrow> regex" where
  "Alts [] = Eps"
| "Alts [r] = r"
| "Alts (r # rs) = Alt r (Alts rs)"

definition In :: "string \<Rightarrow> char \<Rightarrow> bool" where
  "In cs c = (c \<in> set cs)"

text \<open>
  A match is its span and its groups. \<open>re_search\<close> tries the start positions from left to
  right; \<open>re_match\<close> tries the start of the subject only; \<open>re_finditer\<close> gives the
  matches that do not overlap, from left to right (after an empty match the scan moves
  on by one character).
\<close>

datatype rmatch = RMatch (m_start: nat) (m_end: nat) (m_groups: "(nat \<times> string) list")

fun search_at :: "regex \<Rightarrow> nat \<Rightarrow> char option \<Rightarrow> string \<Rightarrow> rmatch option" where
  "search_at r i prev [] =
     (case rx r (MState i prev [] []) of
        st # _ \<Rightarrow> Some (RMatch i (ms_pos st) (ms_groups st))
      | [] \<Rightarrow> None)"
| "search_at r i prev (c # t) =
     (case rx r (MState i prev (c # t) []) of
        st # _ \<Rightarrow> Some (RMatch i (ms_pos st) (ms_groups st))
      | [] \<Rightarrow> search_at r (i + 1) (Some c) t)"

definition re_search :: "regex \<Rightarrow> string \<Rightarrow> rmatch option" where
  "re_search r s = search_at r 0 None s"


function finditer_at :: "regex \<Rightarrow> nat \<Rightarrow> char option \<Rightarrow> string \<Rightarrow> rmatch list" where
  "finditer_at r i prev s =
     (case search_at r i prev s of
        None \<Rightarrow> []
      | Some m \<Rightarrow>
          (let e = (if m_end m > m_start m then m_end m else m_start m + 1) in
           if e \<le> i \<or> e - i > length s then [m]
           else m # finditer_at r e (Some (s ! (e - i - 1))) (drop (e - i) s)))"
  by pat_completeness auto
termination
  by (relation "measure (\<lambda>(r, i, prev, s). length s)") auto

definition re_finditer :: "regex \<Rightarrow> string \<Rightarrow> rmatch list" where
  "re_finditer r s = finditer_at r 0 None s"

text \<open>\<open>m.group(0)\<close>, and \<open>m.group(g)\<close> with the empty string for a group that took no part.\<close>

definition group0 :: "string \<Rightarrow> rmatch \<Rightarrow> string" where
  "group0 s m = take (m_end m - m_start m) (drop (m_start m) s)"

definition group :: "nat \<Rightarrow> rmatch \<Rightarrow> string" where
  "group g m = (case map_of (m_groups m) g of None \<Rightarrow> [] | Some t \<Rightarrow> t)"

text \<open>
  \<open>re.sub(r, repl, s)\<close> for a replacement text without group references, and
  \<open>re.split(r, s)\<close> for a pattern without groups: the pieces between the matches.
\<close>

fun pieces :: "string \<Rightarrow> nat \<Rightarrow> rmatch list \<Rightarrow> string list" where
  "pieces s i [] = [drop i s]"
| "pieces s i (m # ms) = take (m_start m - i) (drop i s) # pieces s (m_end m) ms"

definition re_split :: "regex \<Rightarrow> string \<Rightarrow> string list" where
  "re_split r s = pieces s 0 (re_finditer r s)"

definition re_sub :: "regex \<Rightarrow> string \<Rightarrow> string \<Rightarrow> string" where
  "re_sub r repl s = str_join repl (re_split r s)"

subsection \<open>get\_author\_last\_name\_only (authors.py)\<close>



text \<open>
  \<open>p.findall(s)\<close> for a pattern without groups: the matched texts. \<open>s.split()\<close>: the
  words between runs of whitespace. \<open>xs[1::2]\<close>: every second element, from the second.
\<close>

definition findall0 :: "regex \<Rightarrow> string \<Rightarrow> string list" where
  "findall0 r s = map (group0 s) (re_finditer r s)"








subsection \<open>CRFClassifierText.extract\_doi\<close>

text \<open>
  \<^verbatim>\<open>
  DOI_ID_EXTRACTOR = re.compile(r'(?P<doi>(doi|DOI)?[\s\.\:]{0,2}\b10\.\s*\d{4}[\d\:\.\-\_\/\(\)A-Za-z\s]+)')
  DOI_INDICATOR = re.compile(r'doi:', flags=re.IGNORECASE)
  \<close>
\<close>

definition DOI_ID_EXTRACTOR :: regex where
  "DOI_ID_EXTRACTOR =
     Group 1 (Seqs [Opt (Group 2 (Alt (Lit ''doi'') (Lit ''DOI''))),
                    Rep 0 2 (Chr (\<lambda>c. is_space c \<or> In ''.:'' c)),
                    WordB, Lit ''10.'', Star (Chr is_space), Rep 4 4 (Chr is_digit),
                    Plus (Chr (\<lambda>c. is_digit c \<or> In '':.-_/()'' c \<or> is_alpha c \<or> is_space c))])"

definition DOI_INDICATOR :: regex where
  "DOI_INDICATOR = Lit_ci ''doi:''"

text \<open>
  \<^verbatim>\<open>
  def extract_doi(self, reference_str):
      matches = self.DOI_ID_EXTRACTOR.finditer(reference_str)
      for match in matches:
          doi = match.group('doi')
          if doi:
              doi = doi.split('https://', 1)[0].split('http://', 1)[0].split('arXiv:', 1)[0].split('ascl:', 1)[0]
              if doi.endswith('.'):
                  doi = doi[:-1]
              # see if there are multiple doi listed
              # TODO: need to carry multiple dois, for now consider the first one
              doi = filter(None, self.DOI_INDICATOR.split(doi))[0]
          return doi
      return ''
  \<close>
  The loop returns in its first round, so only the first match counts. The result of
  \<open>filter\<close> is an iterator, and \<open>filter(...)[0]\<close> raises TypeError whatever it holds.
\<close>

definition filter_getitem :: "'a list \<Rightarrow> nat \<Rightarrow> py_error + 'a" where
  "filter_getitem items i = Inl TypeError"

definition doi_cut :: "string \<Rightarrow> string" where
  "doi_cut doi =
     (let doi = str_before (str_before (str_before (str_before doi ''https://'') ''http://'')
                              ''arXiv:'') ''ascl:''
      in if str_endswith doi ''.'' then butlast doi else doi)"

definition extract_doi :: "string \<Rightarrow> py_error + string" where
  "extract_doi reference_str =
     (case re_finditer DOI_ID_EXTRACTOR reference_str of
        [] \<Rightarrow> Inr []
      | match # _ \<Rightarrow>
          (let doi = group 1 match in
           if doi \<noteq> [] then
             (let doi = doi_cut doi
              in filter_getitem (filter (\<lambda>p. p \<noteq> []) (re_split DOI_INDICATOR doi)) 0)
           else Inr doi))"

subsection \<open>CRFClassifierText.identify\_numeric\_tokens\<close>

text \<open>
  \<^verbatim>\<open>
  YEAR_PATTERN = "[12][089]\d\d"
  YEAR_EXTRACTOR = re.compile(r'[(\s]*\b(%s[a-z]?)[)\s.,]+'%YEAR_PATTERN)
  MATCH_INSIDE_PARENTHESIS = r'(\(%s\))'
  FORMATTED_MULTI_NUMERIC_EXTRACTOR = [
      re.compile(r'(?P<volume>\d+)\s+(?P<issue>\d+)\s*:(?P<page>[A-Z]?\d+\-?[A-Z]?\d*)'),
      re.compile(r'(?P<volume>\d+):(?P<page>[A-Z]?\d+\-?[A-Z]?\d*)(?P<issue>\s*)')]
  PAGE_EXTRACTOR = re.compile(r'(?=.*[0-9])(?P<page>[BHPL0-9]+[-.][BHPL0-9]+)')
  VOLUME_EXTRACTOR = re.compile(r'(vol|volume)[.\s]+(?P<volume>\w+)')
  IS_MOSTLY_DIGIT = re.compile(r'(\b[A-Za-z0-9]+[0-9]\b|\b[0-9]+[0-9A-Za-z]\b|\b[0-9]\b)')
  MATCH_A_WORD = re.compile(r'\w+')
  REGEX_PATTERN_WHOLE_WORD_ONLY = r'(?:\b|\B)%s(?:\b|\B)'
  \<close>
  A named group is given with its number. The candidate year put into
  MATCH\_INSIDE\_PARENTHESIS consists of digits and letters, so it stands for itself.
\<close>

definition YEAR_PATTERN :: regex where
  "YEAR_PATTERN = Seqs [Chr (In ''12''), Chr (In ''089''), Chr is_digit, Chr is_digit]"

definition YEAR_EXTRACTOR :: regex where
  "YEAR_EXTRACTOR =
     Seqs [Star (Chr (\<lambda>c. c = CHR ''('' \<or> is_space c)), WordB,
           Group 1 (Seq YEAR_PATTERN (Opt (Chr is_lower))),
           Plus (Chr (\<lambda>c. In '').,'' c \<or> is_space c))]"

definition MATCH_INSIDE_PARENTHESIS :: "string \<Rightarrow> regex" where
  "MATCH_INSIDE_PARENTHESIS y = Group 1 (Seqs [Lit ''('', Lit y, Lit '')''])"

definition page_shape :: regex where
  "page_shape = Seqs [Opt (Chr is_upper), Plus (Chr is_digit), Opt (Lit ''-''),
                      Opt (Chr is_upper), Star (Chr is_digit)]"

text \<open>Each extractor with the numbers of its groups volume, page and issue.\<close>

definition FORMATTED_MULTI_NUMERIC_EXTRACTOR :: "(regex \<times> nat \<times> nat \<times> nat) list" where
  "FORMATTED_MULTI_NUMERIC_EXTRACTOR =
     [(Seqs [Group 1 (Plus (Chr is_digit)), Plus (Chr is_space), Group 2 (Plus (Chr is_digit)),
             Star (Chr is_space), Lit '':'', Group 3 page_shape], 1, 3, 2),
      (Seqs [Group 1 (Plus (Chr is_digit)), Lit '':'', Group 2 page_shape,
             Group 3 (Star (Chr is_space))], 1, 2, 3)]"

definition PAGE_EXTRACTOR :: regex where
  "PAGE_EXTRACTOR =
     Seqs [Look (Seq (Star (Chr (\<lambda>c. c \<noteq> CHR 0x0A))) (Chr is_digit)),
           Group 1 (Seqs [Plus (Chr (\<lambda>c. In ''BHPL'' c \<or> is_digit c)), Chr (In ''-.''),
                          Plus (Chr (\<lambda>c. In ''BHPL'' c \<or> is_digit c))])]"

definition VOLUME_EXTRACTOR :: regex where
  "VOLUME_EXTRACTOR =
     Seqs [Group 1 (Alt (Lit ''vol'') (Lit ''volume'')), Plus (Chr (\<lambda>c. c = CHR ''.'' \<or> is_space c)),
           Group 2 (Plus (Chr is_word))]"

definition IS_MOSTLY_DIGIT :: regex where
  "IS_MOSTLY_DIGIT =
     Group 1 (Alts [Seqs [WordB, Plus (Chr (\<lambda>c. is_alpha c \<or> is_digit c)), Chr is_digit, WordB],
                    Seqs [WordB, Plus (Chr is_digit), Chr (\<lambda>c. is_digit c \<or> is_alpha c), WordB],
                    Seqs [WordB, Chr is_digit, WordB]])"

definition MATCH_A_WORD :: regex where
  "MATCH_A_WORD = Plus (Chr is_word)"

text \<open>
  \<^verbatim>\<open>
  def substitute(self, pattern, replace, text):
      if isinstance(pattern, list):
          ...
      return re.sub(self.REGEX_PATTERN_WHOLE_WORD_ONLY % re.escape(pattern), replace, text)
  \<close>
  Only the branch for a pattern that is a string is used by identify\_numeric\_tokens.
\<close>

definition REGEX_PATTERN_WHOLE_WORD_ONLY :: "regex \<Rightarrow> regex" where
  "REGEX_PATTERN_WHOLE_WORD_ONLY r = Seqs [Alt WordB NotWordB, r, Alt WordB NotWordB]"

definition substitute :: "string \<Rightarrow> string \<Rightarrow> string \<Rightarrow> string" where
  "substitute pattern replace text = re_sub (REGEX_PATTERN_WHOLE_WORD_ONLY (Lit pattern)) replace text"

text \<open>
  \<^verbatim>\<open>
  def concatenate(self, token_1, token_2):
      if not token_2 or len(token_2) == 0:
          return token_1
      return '%s%s%s'%(token_1, ' ' if len(token_1) > 0 else '', token_2)
  \<close>
\<close>

definition concatenate :: "string \<Rightarrow> string \<Rightarrow> string" where
  "concatenate token_1 token_2 =
     (if token_2 = [] then token_1
      else token_1 @ (if length token_1 > 0 then '' '' else []) @ token_2)"

text \<open>
  \<^verbatim>\<open>
  def is_identifying_word(self, ref_data_word):
      if ref_data_word.isalpha():
          for i, word in enumerate(self.IDENTIFYING_WORDS.values()):
              for w in word:
                  if w == ref_data_word.lower():
                      return i+1
      return 0
  \<close>
\<close>

definition IDENTIFYING_WORDS :: "(string \<times> string list) list" where
  "IDENTIFYING_WORDS =
     [(''ARXIV_IDENTIFIER'', [''arxiv'']), (''EDITOR_IDENTIFIER'', [''editor'', ''eds'', ''ed'']),
      (''ET_AL'', [''et'', ''al'']), (''DOI_IDENTIFIER'', [''doi'']), (''ISSUE_IDENTIFIER'', [''issue'']),
      (''ISSN__IDENTIFIER'', [''issn'']), (''PAGE_IDENTIFIER'', [''page'', ''pages'', ''pp'', ''p'']),
      (''VERSION_IDENTIFIER'', [''version'']), (''VOLUME_IDENTIFIER'', [''volume'', ''vol'']),
      (''ISBN_IDENTIFIER'', [''isbn'']), (''ASCL_IDENTIFIER'', [''ascl''])]"

fun first_index_where :: "('a \<Rightarrow> bool) \<Rightarrow> nat \<Rightarrow> 'a list \<Rightarrow> nat option" where
  "first_index_where P i [] = None"
| "first_index_where P i (x # xs) = (if P x then Some i else first_index_where P (i + 1) xs)"

definition is_identifying_word :: "string \<Rightarrow> nat" where
  "is_identifying_word ref_data_word =
     (if str_isalpha ref_data_word
      then (case first_index_where (\<lambda>word. str_lower ref_data_word \<in> set word) 0
                   (map snd IDENTIFYING_WORDS) of
              Some i \<Rightarrow> i + 1
            | None \<Rightarrow> 0)
      else 0)"

text \<open>
  The year of the result is a text when one candidate is settled on, and otherwise the
  list of candidates that the code is left with.
\<close>

datatype year_val = YearStr string | YearList "string list"

record numeric_tokens =
  nt_page :: string
  nt_year :: year_val
  nt_volume :: string
  nt_issue :: string
  nt_unknown :: string

text \<open>
  \<^verbatim>\<open>
  year = list(OrderedDict.fromkeys(self.YEAR_EXTRACTOR.findall(reference_str)))
  if len(year) > 1:
      # see if one has appeared in parenthesis, pick that one
      for y in year:
          if re.search(self.MATCH_INSIDE_PARENTHESIS % y, reference_str):
              year = [y]
              break
      if len(year) > 1:
          year = [y for y in year if y.isnumeric() and int(y) >= self.year_earliest and int(y) <= self.year_now]
  if len(year) == 1:
      year = year[0]
      reference_str = self.substitute(year, '', reference_str)
  \<close>
  \<open>year_now\<close> is the year of the clock when the classifier was made; \<open>year_earliest\<close> is 1400.
\<close>

definition year_earliest :: int where
  "year_earliest = 1400"

definition year_candidates :: "string \<Rightarrow> string list" where
  "year_candidates reference_str = first_seen (map (group 1) (re_finditer YEAR_EXTRACTOR reference_str))"

definition in_parenthesis :: "string \<Rightarrow> string \<Rightarrow> bool" where
  "in_parenthesis reference_str y = (re_search (MATCH_INSIDE_PARENTHESIS y) reference_str \<noteq> None)"

definition year_in_range :: "int \<Rightarrow> string \<Rightarrow> bool" where
  "year_in_range year_now y =
     (str_isdigit y \<and> str_to_int y \<ge> year_earliest \<and> str_to_int y \<le> year_now)"

definition select_year :: "int \<Rightarrow> string \<Rightarrow> string list" where
  "select_year year_now reference_str =
     (let year = year_candidates reference_str in
      if length year > 1 then
        (let year = (case filter (in_parenthesis reference_str) year of y # _ \<Rightarrow> [y] | [] \<Rightarrow> year)
         in if length year > 1 then filter (year_in_range year_now) year else year)
      else year)"

definition identify_year :: "int \<Rightarrow> string \<Rightarrow> year_val \<times> string" where
  "identify_year year_now reference_str =
     (case select_year year_now reference_str of
        [year] \<Rightarrow> (YearStr year, substitute year [] reference_str)
      | year \<Rightarrow> (YearList year, reference_str))"

text \<open>
  \<^verbatim>\<open>
  for ne in self.FORMATTED_MULTI_NUMERIC_EXTRACTOR:
      extractor = ne.search(reference_str)
      if extractor:
          volume = extractor.group('volume')
          page = extractor.group('page')
          issue = extractor.group('issue').strip()
          if len(volume) > 0:
              reference_str = self.substitute(volume, '', reference_str)
          if len(page) > 0:
              reference_str = self.substitute(page, '', reference_str)
          if len(issue) > 0:
              reference_str = self.substitute(issue, '', reference_str)
          break
      else:
          volume = page = issue = ''
  \<close>
  The result is volume, page, issue and the reference text.
\<close>

fun formatted_multi_numeric ::
  "(regex \<times> nat \<times> nat \<times> nat) list \<Rightarrow> string \<Rightarrow> string \<times> string \<times> string \<times> string" where
  "formatted_multi_numeric [] reference_str = ([], [], [], reference_str)"
| "formatted_multi_numeric ((ne, gv, gp, gi) # extractors) reference_str =
     (case re_search ne reference_str of
        Some extractor \<Rightarrow>
          (let volume = group gv extractor;
               page = group gp extractor;
               issue = str_strip (group gi extractor);
               reference_str = (if length volume > 0 then substitute volume [] reference_str else reference_str);
               reference_str = (if length page > 0 then substitute page [] reference_str else reference_str);
               reference_str = (if length issue > 0 then substitute issue [] reference_str else reference_str)
           in (volume, page, issue, reference_str))
      | None \<Rightarrow> formatted_multi_numeric extractors reference_str)"

text \<open>
  \<^verbatim>\<open>
  if len(page) == 0:
      page = self.PAGE_EXTRACTOR.search(reference_str)
      if page:
          page = page.group('page')
          reference_str = self.substitute(page, '', reference_str)
      else:
          page = ''
  if len(volume) == 0:
      volume = self.VOLUME_EXTRACTOR.search(reference_str)
      if volume:
          volume = volume.group('volume')
          reference_str = self.substitute(volume, '', reference_str)
      else:
          volume = ''
  \<close>
\<close>

definition extract_field :: "regex \<Rightarrow> nat \<Rightarrow> string \<Rightarrow> string \<Rightarrow> string \<times> string" where
  "extract_field extractor g field reference_str =
     (if length field = 0 then
        (case re_search extractor reference_str of
           Some m \<Rightarrow> (group g m, substitute (group g m) [] reference_str)
         | None \<Rightarrow> ([], reference_str))
      else (field, reference_str))"

text \<open>
  \<^verbatim>\<open>
  if len(volume) == 0:
      try:
          the_rest_numeric = the_rest[the_rest.index(next(elem for elem in the_rest if elem.isdigit())):]
          unknown = self.concatenate(unknown, ' '.join([non_numeric for non_numeric in the_rest
                                                        if non_numeric not in the_rest_numeric]))
          the_rest = the_rest_numeric
      except:
          unknown = self.concatenate(unknown, ' '.join(the_rest))
          the_rest = ''
  \<close>
  The first element that is all digits is at the first position where such an element
  stands, so the slice drops the elements before it; \<open>next\<close> raises when there is none.
\<close>

definition trim_leftovers :: "string \<Rightarrow> string list \<Rightarrow> string \<Rightarrow> string list \<times> string" where
  "trim_leftovers volume the_rest unknown =
     (if length volume = 0 then
        (if list_ex str_isdigit the_rest then
           (let the_rest_numeric = dropWhile (\<lambda>elem. \<not> str_isdigit elem) the_rest
            in (the_rest_numeric,
                concatenate unknown
                  (str_join '' '' (filter (\<lambda>non_numeric. non_numeric \<notin> set the_rest_numeric) the_rest))))
         else ([], concatenate unknown (str_join '' '' the_rest)))
      else (the_rest, unknown))"

text \<open>
  \<^verbatim>\<open>
  # how many numeric value do we have? if more than 3, we have no guesses so return
  if len(the_rest) <= 3:
      if len(the_rest) == 3 and len(volume) == 0 and len(issue) == 0 and len(page) == 0:
          volume = the_rest[0]
          issue = the_rest[1]
          page = the_rest[2]
      elif len(the_rest) == 2 and (len(volume) == 0 or len(page) == 0):
          if len(volume) == 0:
              volume = the_rest[0]
              if len(page) == 0:
                  page = the_rest[1]
              else:
                  issue = the_rest[1]
          elif len(page) == 0:
              page = the_rest[1]
              issue = the_rest[0]
          else:
              unknown = self.concatenate(unknown, ' '.join(the_rest))
      elif len(the_rest) == 1:
          if len(volume) == 0:
              volume = the_rest[0]
          elif len(page) == 0:
              page = the_rest[0]
          else:
              issue = the_rest[0]
      else:
          unknown = self.concatenate(unknown, ' '.join(the_rest))
  \<close>
\<close>

definition assign_leftovers :: "string list \<Rightarrow> numeric_tokens \<Rightarrow> numeric_tokens" where
  "assign_leftovers the_rest f =
     (if length the_rest \<le> 3 then
        (if length the_rest = 3 \<and> length (nt_volume f) = 0 \<and> length (nt_issue f) = 0
            \<and> length (nt_page f) = 0
         then f\<lparr>nt_volume := the_rest ! 0, nt_issue := the_rest ! 1, nt_page := the_rest ! 2\<rparr>
         else if length the_rest = 2 \<and> (length (nt_volume f) = 0 \<or> length (nt_page f) = 0) then
           (if length (nt_volume f) = 0 then
              (if length (nt_page f) = 0
               then f\<lparr>nt_volume := the_rest ! 0, nt_page := the_rest ! 1\<rparr>
               else f\<lparr>nt_volume := the_rest ! 0, nt_issue := the_rest ! 1\<rparr>)
            else if length (nt_page f) = 0
            then f\<lparr>nt_page := the_rest ! 1, nt_issue := the_rest ! 0\<rparr>
            else f\<lparr>nt_unknown := concatenate (nt_unknown f) (str_join '' '' the_rest)\<rparr>)
         else if length the_rest = 1 then
           (if length (nt_volume f) = 0 then f\<lparr>nt_volume := the_rest ! 0\<rparr>
            else if length (nt_page f) = 0 then f\<lparr>nt_page := the_rest ! 0\<rparr>
            else f\<lparr>nt_issue := the_rest ! 0\<rparr>)
         else f\<lparr>nt_unknown := concatenate (nt_unknown f) (str_join '' '' the_rest)\<rparr>)
      else f)"

text \<open>
  \<^verbatim>\<open>
  # continue only if need to guess values for one of these fields, otherwise return
  if len(volume) == 0 or len(page) == 0 or len(issue) == 0:
      unknown = self.concatenate(unknown, ' '.join([elem for elem in self.MATCH_A_WORD.findall(reference_str)
                                                    if elem not in the_rest and not self.is_identifying_word(elem)]))
      if len(the_rest) > 0:
          (the two steps above)
  \<close>
\<close>

definition guess_numeric :: "string \<Rightarrow> string list \<Rightarrow> numeric_tokens \<Rightarrow> numeric_tokens" where
  "guess_numeric reference_str the_rest f =
     (if length (nt_volume f) = 0 \<or> length (nt_page f) = 0 \<or> length (nt_issue f) = 0 then
        (let unknown = concatenate (nt_unknown f)
                         (str_join '' '' (filter (\<lambda>elem. elem \<notin> set the_rest \<and> is_identifying_word elem = 0)
                                             (findall0 MATCH_A_WORD reference_str)))
         in if length the_rest > 0 then
              (case trim_leftovers (nt_volume f) the_rest unknown of
                 (the_rest, unknown) \<Rightarrow> assign_leftovers the_rest (f\<lparr>nt_unknown := unknown\<rparr>))
            else f\<lparr>nt_unknown := unknown\<rparr>)
      else f)"

text \<open>
  \<^verbatim>\<open>
  def identify_numeric_tokens(self, reference_str, unknown=''):
      (year)
      (compact layouts)
      (page, volume)
      # the rest, also remove duplicates
      the_rest = list(OrderedDict.fromkeys(self.IS_MOSTLY_DIGIT.findall(reference_str)))
      (guesses)
      return {'page': page, 'year': year, 'volume': volume, 'issue': issue, 'unknown': unknown}
  \<close>
\<close>

definition identify_numeric_tokens :: "int \<Rightarrow> string \<Rightarrow> string \<Rightarrow> numeric_tokens" where
  "identify_numeric_tokens year_now reference_str unknown =
     (case identify_year year_now reference_str of (year, reference_str) \<Rightarrow>
      case formatted_multi_numeric FORMATTED_MULTI_NUMERIC_EXTRACTOR reference_str of
        (volume, page, issue, reference_str) \<Rightarrow>
      case extract_field PAGE_EXTRACTOR 1 page reference_str of (page, reference_str) \<Rightarrow>
      case extract_field VOLUME_EXTRACTOR 2 volume reference_str of (volume, reference_str) \<Rightarrow>
        (let the_rest = first_seen (map (group 1) (re_finditer IS_MOSTLY_DIGIT reference_str))
         in guess_numeric reference_str the_rest
              \<lparr>nt_page = page, nt_year = year, nt_volume = volume, nt_issue = issue,
               nt_unknown = unknown\<rparr>))"

subsection \<open>CRFClassifier.reference\<close>

text \<open>Sequencing of steps that may raise: the first exception ends the run.\<close>

definition bind_err :: "py_error + 'a \<Rightarrow> ('a \<Rightarrow> py_error + 'b) \<Rightarrow> py_error + 'b" where
  "bind_err m f = (case m of Inl e \<Rightarrow> Inl e | Inr x \<Rightarrow> f x)"



























subsection \<open>CRFClassifier.get\_data\_features: the features of one token\<close>










































text \<open>
  \<^verbatim>\<open>
  def which_identifying_word(self, ref_data, index, ref_label):
      if len(ref_label) > 0:
          return self.IDENTIFYING_WORDS.keys().index(ref_label[index])+1 \
                          if ref_label[index] in self.IDENTIFYING_WORDS.keys() else 0
      return self.is_identifying_word(ref_data[index])

  def is_punctuation(self, punctuation):
      found = [i for i, p in enumerate(self.PUNCTUATIONS.values()) if punctuation in p]
      return found[0]+1 if len(found) > 0 else 0

  def which_punctuation(self, ref_data, index, ref_label):
      if len(ref_label) > 0:
          return self.PUNCTUATIONS.keys().index(ref_label[index])+1 \
                          if ref_label[index] in self.PUNCTUATIONS.keys() else 0
      return self.is_punctuation(ref_data[index])
  \<close>
\<close>





























section \<open>Properties\<close>

subsection \<open>The label-code map (C9)\<close>


lemma update_absent: "k \<notin> fst ` set d \<Longrightarrow> AList.update k v d = d @ [(k, v)]"
  by (induction d) auto

lemma encoder_step_cases:
  assumes "enc_inv st"
  shows "encoder_step st l =
    (if l \<in> fst ` set (fst st) then st else (fst st @ [(l, int (length (fst st)))], int (length (fst st))))"
proof (cases st)
  case (Pair d n)
  with assms have n: "n = int (length d) - 1" by (simp add: enc_inv_def)
  show ?thesis
  proof (cases "l \<in> fst ` set d")
    case True
    then have "d \<noteq> []" by auto
    then have "n \<ge> 0" using n by (cases d) auto
    with True Pair show ?thesis by (simp add: encoder_step_def dict_in_def)
  next
    case False
    with Pair n show ?thesis
      by (simp add: encoder_step_def dict_in_def dict_set_def update_absent)
  qed
qed

lemma encoder_step_inv: "enc_inv st \<Longrightarrow> enc_inv (encoder_step st l)"
  by (simp add: encoder_step_cases) (simp add: enc_inv_def)

lemma encoder_label_inv: "enc_inv st \<Longrightarrow> enc_inv (encoder_label label st)"
  unfolding encoder_label_def
  by (induction label arbitrary: st) (simp_all add: encoder_step_inv)

lemma encoder_loop_concat: "fold encoder_label labels st = encoder_label (concat labels) st"
  by (induction labels arbitrary: st) (simp_all add: encoder_label_def)

lemma encoder_label_snoc: "encoder_label (xs @ [l]) st = encoder_step (encoder_label xs st) l"
  by (simp add: encoder_label_def)

lemma first_seen_snoc:
  "first_seen (xs @ [l]) = (if l \<in> set xs then first_seen xs else first_seen xs @ [l])"
  by (simp add: first_seen_def)

lemma enc_inv_init: "enc_inv ([], - 1)"
  by (simp add: enc_inv_def)

lemma encoder_label_keys:
  "map fst (fst (encoder_label xs ([], - 1))) = first_seen xs"
proof (induction xs rule: rev_induct)
  case Nil
  show ?case by (simp add: encoder_label_def first_seen_def)
next
  case (snoc l xs)
  have inv: "enc_inv (encoder_label xs ([], - 1))"
    by (rule encoder_label_inv [OF enc_inv_init])
  have mem: "fst ` set (fst (encoder_label xs ([], - 1))) = set xs"
    using snoc by (metis first_seen_def list.set_map set_remdups set_rev)
  show ?case
    by (simp add: encoder_label_snoc encoder_step_cases [OF inv] mem first_seen_snoc snoc)
qed

lemma encoder_label_prefix:
  "enc_inv st \<Longrightarrow> \<exists>tail. fst (encoder_label post st) = fst st @ tail"
proof (induction post arbitrary: st)
  case Nil
  show ?case by (simp add: encoder_label_def)
next
  case (Cons l post)
  have step: "encoder_label (l # post) st = encoder_label post (encoder_step st l)"
    by (simp add: encoder_label_def)
  from Cons.IH [OF encoder_step_inv [OF Cons.prems]]
  obtain tail where t: "fst (encoder_label post (encoder_step st l)) = fst (encoder_step st l) @ tail"
    by blast
  show ?case
    using t by (simp add: step encoder_step_cases [OF Cons.prems])
qed

lemma encoder_label_append: "encoder_label (xs @ ys) st = encoder_label ys (encoder_label xs st)"
  by (simp add: encoder_label_def)

lemma next_key_distinct:
  "distinct (map snd d) \<Longrightarrow> (k, v) \<in> set d \<Longrightarrow> next_key d v = Inr k"
  by (induction d) (auto simp: rev_image_eqI)

lemma numeric_label_decoder:
  assumes "distinct (map fst d)" "distinct (map snd d)" "set label \<subseteq> fst ` set d"
  shows "\<exists>codes. numeric_label d label = Inr codes \<and> decoder d codes = Inr label"
  using assms(3)
proof (induction label)
  case Nil
  show ?case by simp
next
  case (Cons l label)
  then obtain codes where c: "numeric_label d label = Inr codes" "decoder d codes = Inr label"
    by auto
  from Cons.prems obtain v where v: "(l, v) \<in> set d" by auto
  with assms(1) have "map_of d l = Some v" by simp
  moreover have "next_key d v = Inr l" using next_key_distinct [OF assms(2) v] .
  ultimately show ?case using c by (simp add: dict_getitem_def)
qed

lemma encoder_conv: "encoder labels = fst (encoder_label (concat labels) ([], - 1))"
  by (simp add: encoder_def encoder_loop_def encoder_loop_concat)

lemma encoder_keys: "map fst (encoder labels) = first_seen (concat labels)"
  by (simp add: encoder_conv encoder_label_keys)

lemma encoder_codes: "map snd (encoder labels) = map int [0..<length (encoder labels)]"
  using encoder_label_inv [OF enc_inv_init, of "concat labels"]
  by (simp add: encoder_conv enc_inv_def)

text \<open>
  Claim C9. For every training corpus, the label-code map built by \<open>encoder\<close> holds each
  distinct label string exactly once, in first-seen order, with the dense codes
  \<open>0, 1, 2, \<dots>\<close>; a code once given is never reassigned (the map built from any prefix
  of the corpus is a prefix of the final map); and for every reference of the corpus the
  numeric label sequence exists and \<open>decoder\<close> maps it back to exactly the original
  label strings.
\<close>

theorem encoder_decoder_roundtrip:
  "map fst (encoder labels) = first_seen (concat labels)
   \<and> map snd (encoder labels) = map int [0..<length (encoder labels)]
   \<and> (\<forall>pre post. concat labels = pre @ post \<longrightarrow> (\<exists>tail. encoder labels = encoder [pre] @ tail))
   \<and> (\<forall>label \<in> set labels. \<exists>codes.
         numeric_label (encoder labels) label = Inr codes
         \<and> decoder (encoder labels) codes = Inr label)"
proof (intro conjI allI impI ballI)
  show "map fst (encoder labels) = first_seen (concat labels)" by (rule encoder_keys)
  show "map snd (encoder labels) = map int [0..<length (encoder labels)]" by (rule encoder_codes)
next
  fix pre post assume "concat labels = pre @ post"
  then have "encoder labels = fst (encoder_label post (encoder_label pre ([], - 1)))"
    by (simp add: encoder_conv encoder_label_append)
  moreover have "encoder [pre] = fst (encoder_label pre ([], - 1))"
    by (simp add: encoder_conv)
  ultimately show "\<exists>tail. encoder labels = encoder [pre] @ tail"
    using encoder_label_prefix [OF encoder_label_inv [OF enc_inv_init], of post pre] by simp
next
  fix label assume l: "label \<in> set labels"
  have d1: "distinct (map fst (encoder labels))"
    by (simp add: encoder_keys first_seen_def)
  have d2: "distinct (map snd (encoder labels))"
    by (simp add: encoder_codes distinct_map)
  have "set (map fst (encoder labels)) = set (concat labels)"
    by (simp only: encoder_keys) (simp add: first_seen_def)
  then have sub: "set label \<subseteq> fst ` set (encoder labels)"
    using l by auto
  show "\<exists>codes. numeric_label (encoder labels) label = Inr codes
         \<and> decoder (encoder labels) codes = Inr label"
    by (rule numeric_label_decoder [OF d1 d2 sub])
qed


theorem encoder_decoder_roundtrip_witness:
  "encoder [[''A'', ''B'', ''A''], [''C'', ''B'']] = [(''A'', 0), (''B'', 1), (''C'', 2)]
   \<and> (\<exists>codes. numeric_label (encoder [[''A'', ''B'', ''A''], [''C'', ''B'']]) [''C'', ''B''] = Inr codes
        \<and> decoder (encoder [[''A'', ''B'', ''A''], [''C'', ''B'']]) codes = Inr [''C'', ''B''])"
proof -
  have "[''C'', ''B''] \<in> set [[''A'', ''B'', ''A''], [''C'', ''B'']]" by simp
  with encoder_decoder_roundtrip [of "[[''A'', ''B'', ''A''], [''C'', ''B'']]"]
  have "\<exists>codes. numeric_label (encoder [[''A'', ''B'', ''A''], [''C'', ''B'']]) [''C'', ''B''] = Inr codes
        \<and> decoder (encoder [[''A'', ''B'', ''A''], [''C'', ''B'']]) codes = Inr [''C'', ''B'']"
    by blast
  moreover have "encoder [[''A'', ''B'', ''A''], [''C'', ''B'']] = [(''A'', 0), (''B'', 1), (''C'', 2)]"
    by (simp add: encoder_def encoder_loop_def encoder_label_def encoder_step_def dict_in_def dict_set_def)
  ultimately show ?thesis by blast
qed

subsection \<open>Evidence scores are checked, not clamped (C8)\<close>

lemma assert_in_range_iff:
  "assert_in_range self evs = Inr () \<longleftrightarrow> (\<forall>ev \<in> set evs. min_score self \<le> ev \<and> ev \<le> max_score self)"
  by (induction evs) auto

lemma assert_in_range_fail:
  "assert_in_range self evs \<noteq> Inr () \<Longrightarrow> assert_in_range self evs = Inl AssertionError"
  by (induction evs) (auto split: if_splits)

lemma Evidences_add_cases:
  "Evidences_add self other =
     (if \<forall>ev \<in> set (evidences other). min_score self \<le> ev \<and> ev \<le> max_score self
      then Inr (self\<lparr>ev_score := None,
                     evidences := evidences self @ evidences other,
                     ev_labels := ev_labels self @ ev_labels other\<rparr>)
      else Inl AssertionError)"
proof (cases "assert_in_range self (evidences other) = Inr ()")
  case True
  then show ?thesis
    using assert_in_range_iff [of self "evidences other"] by (simp add: Evidences_add_def)
next
  case False
  then show ?thesis
    using assert_in_range_iff [of self "evidences other"] assert_in_range_fail [OF False]
    by (simp add: Evidences_add_def)
qed

text \<open>
  Claim C8. A score given to \<open>add_evidence\<close> is recorded unchanged when it lies in the
  range of the instance and is refused with an assertion failure otherwise; the in-place
  combination records the scores of the other instance unchanged when all of them lie in
  the range and is refused with an assertion failure otherwise; \<open>add_author_evidence\<close>
  passes its computed score, clamped into the configured range, to \<open>add_evidence\<close> under
  the label authors, so that with a range \<open>lo \<le> hi\<close> shared by the configuration and the
  instance the clamped score is always recorded.
\<close>

theorem evidence_checked_not_clamped:
  "add_evidence self ev l =
     (if min_score self \<le> ev \<and> ev \<le> max_score self
      then Inr (self\<lparr>ev_score := None, evidences := evidences self @ [ev],
                     ev_labels := ev_labels self @ [l]\<rparr>)
      else Inl AssertionError)
   \<and> Evidences_add self other =
     (if \<forall>e \<in> set (evidences other). min_score self \<le> e \<and> e \<le> max_score self
      then Inr (self\<lparr>ev_score := None, evidences := evidences self @ evidences other,
                     ev_labels := ev_labels self @ ev_labels other\<rparr>)
      else Inl AssertionError)
   \<and> (ref_authors \<noteq> [] \<and> ads_authors \<noteq> []
        \<and> count (str_replace_char (CHR ''-'') (CHR '' '') ref_authors) ads_authors first = Inr counts
        \<and> EVIDENCE_SCORE_RANGE cfg = (min_score self, max_score self)
        \<and> min_score self \<le> max_score self
      \<longrightarrow> (\<exists>s. s = max (min_score self) (min (max_score self)
                        (author_score cfg counts (length ads_authors) has_etal))
             \<and> min_score self \<le> s \<and> s \<le> max_score self
             \<and> add_author_evidence cfg count self ref_authors ads_authors first has_etal =
                 Inr (self\<lparr>ev_score := None, evidences := evidences self @ [s],
                           ev_labels := ev_labels self @ [''authors'']\<rparr>)))"
proof (intro conjI impI)
  show "add_evidence self ev l =
     (if min_score self \<le> ev \<and> ev \<le> max_score self
      then Inr (self\<lparr>ev_score := None, evidences := evidences self @ [ev],
                     ev_labels := ev_labels self @ [l]\<rparr>)
      else Inl AssertionError)"
    by (simp add: add_evidence_def)
  show "Evidences_add self other =
     (if \<forall>e \<in> set (evidences other). min_score self \<le> e \<and> e \<le> max_score self
      then Inr (self\<lparr>ev_score := None, evidences := evidences self @ evidences other,
                     ev_labels := ev_labels self @ ev_labels other\<rparr>)
      else Inl AssertionError)"
    by (rule Evidences_add_cases)
next
  assume a: "ref_authors \<noteq> [] \<and> ads_authors \<noteq> []
        \<and> count (str_replace_char (CHR ''-'') (CHR '' '') ref_authors) ads_authors first = Inr counts
        \<and> EVIDENCE_SCORE_RANGE cfg = (min_score self, max_score self)
        \<and> min_score self \<le> max_score self"
  define s where "s = max (min_score self) (min (max_score self)
                        (author_score cfg counts (length ads_authors) has_etal))"
  have r: "min_score self \<le> s \<and> s \<le> max_score self"
    using a by (simp add: s_def)
  have "add_author_evidence cfg count self ref_authors ads_authors first has_etal =
          add_evidence self s ''authors''"
    using a by (simp add: add_author_evidence_def str_replace_char_def s_def Let_def)
  then have "add_author_evidence cfg count self ref_authors ads_authors first has_etal =
                 Inr (self\<lparr>ev_score := None, evidences := evidences self @ [s],
                           ev_labels := ev_labels self @ [''authors'']\<rparr>)"
    using r by (simp add: add_evidence_def)
  with r show "\<exists>s. s = max (min_score self) (min (max_score self)
                        (author_score cfg counts (length ads_authors) has_etal))
             \<and> min_score self \<le> s \<and> s \<le> max_score self
             \<and> add_author_evidence cfg count self ref_authors ads_authors first has_etal =
                 Inr (self\<lparr>ev_score := None, evidences := evidences self @ [s],
                           ev_labels := ev_labels self @ [''authors'']\<rparr>)"
    using s_def by blast
qed

theorem evidence_checked_not_clamped_witness:
  "add_evidence (Evidences_init \<lparr>EVIDENCE_SCORE_RANGE = (- 1, 1), MISSING_FIRST_AUTHOR_FACTOR = 1 / 2\<rparr>)
      2 ''year'' = Inl AssertionError
   \<and> Evidences_add (Evidences_init \<lparr>EVIDENCE_SCORE_RANGE = (- 1, 1), MISSING_FIRST_AUTHOR_FACTOR = 1 / 2\<rparr>)
        \<lparr>evidences = [1 / 2, 3], ev_labels = [''year'', ''page''], ev_score = None,
         min_score = - 5, max_score = 5\<rparr> = Inl AssertionError
   \<and> add_author_evidence \<lparr>EVIDENCE_SCORE_RANGE = (- 1, 1), MISSING_FIRST_AUTHOR_FACTOR = 1 / 2\<rparr>
        (\<lambda>r a f. Inr (0, 3, 0, False))
        (Evidences_init \<lparr>EVIDENCE_SCORE_RANGE = (- 1, 1), MISSING_FIRST_AUTHOR_FACTOR = 1 / 2\<rparr>)
        ''Smith'' [''Jones, A''] None False
     = Inr \<lparr>evidences = [- 1], ev_labels = [''authors''], ev_score = None,
            min_score = - 1, max_score = 1\<rparr>"
proof -
  let ?cfg = "\<lparr>EVIDENCE_SCORE_RANGE = (- 1, 1), MISSING_FIRST_AUTHOR_FACTOR = 1 / 2\<rparr>"
  let ?other = "\<lparr>evidences = [1 / 2, 3], ev_labels = [''year'', ''page''], ev_score = None,
         min_score = - 5, max_score = 5\<rparr>"
  have sc: "author_score ?cfg (0, 3, 0, False) (length [''Jones, A'']) False = - 3"
    by (simp add: author_score_def round2_def round_half_even_def)
  have pre: "''Smith'' \<noteq> [] \<and> [''Jones, A''] \<noteq> []
        \<and> (\<lambda>r a f. Inr (0, 3, 0, False)) (str_replace_char (CHR ''-'') (CHR '' '') ''Smith'') [''Jones, A''] None
            = (Inr (0, 3, 0, False) :: py_error + author_counts)
        \<and> EVIDENCE_SCORE_RANGE ?cfg = (min_score (Evidences_init ?cfg), max_score (Evidences_init ?cfg))
        \<and> min_score (Evidences_init ?cfg) \<le> max_score (Evidences_init ?cfg)"
    by (simp add: Evidences_init_def)
  from evidence_checked_not_clamped [of "Evidences_init ?cfg" 2 "''year''" ?other "''Smith''"
      "[''Jones, A'']" "\<lambda>r a f. Inr (0, 3, 0, False)" None "(0, 3, 0, False)" ?cfg False] pre sc
  show ?thesis
    by (simp add: Evidences_init_def)
qed

subsection \<open>The acceptance loop of create\_crf (C3)\<close>

lemma crf_state_step:
  "(case attempt (attempts (crf_state attempt k)) of
      Raises \<Rightarrow> (crf_state attempt k)\<lparr>attempts := attempts (crf_state attempt k) + 1,
                   logged := logged (crf_state attempt k) @ [attempts (crf_state attempt k)]\<rparr>
    | Scores s \<Rightarrow> (crf_state attempt k)\<lparr>final_score := s, attempts := attempts (crf_state attempt k) + 1\<rparr>)
   = crf_state attempt (Suc k)"
  by (cases "attempt k") (simp_all add: crf_state_def)

lemma create_crf_loop_state:
  "\<exists>m. m \<le> n \<and> create_crf_loop attempt n (crf_state attempt k) = crf_state attempt (k + m)
       \<and> (\<forall>j < m. score_after attempt (k + j) \<le> 0.90)
       \<and> (m < n \<longrightarrow> score_after attempt (k + m) > 0.90)"
proof (induction n arbitrary: k)
  case 0
  show ?case by simp
next
  case (Suc n)
  show ?case
  proof (cases "score_after attempt k \<le> 0.90")
    case False
    then have "create_crf_loop attempt (Suc n) (crf_state attempt k) = crf_state attempt (k + 0)"
      by (simp add: crf_state_def)
    with False show ?thesis by (intro exI [of _ 0]) simp
  next
    case True
    from Suc.IH [of "Suc k"] obtain m where m: "m \<le> n"
      "create_crf_loop attempt n (crf_state attempt (Suc k)) = crf_state attempt (Suc k + m)"
      "\<forall>j < m. score_after attempt (Suc k + j) \<le> 0.90"
      "m < n \<longrightarrow> score_after attempt (Suc k + m) > 0.90"
      by blast
    have fs: "final_score (crf_state attempt k) \<le> 0.90"
      using True by (simp add: crf_state_def)
    have "create_crf_loop attempt (Suc n) (crf_state attempt k)
            = create_crf_loop attempt n (crf_state attempt (Suc k))"
      using fs by (simp only: create_crf_loop.simps if_True crf_state_step)
    then have 1: "create_crf_loop attempt (Suc n) (crf_state attempt k) = crf_state attempt (k + Suc m)"
      using m(2) by simp
    have 2: "\<forall>j < Suc m. score_after attempt (k + j) \<le> 0.90"
    proof (intro allI impI)
      fix j assume "j < Suc m"
      show "score_after attempt (k + j) \<le> 0.90"
      proof (cases j)
        case 0
        with True show ?thesis by simp
      next
        case (Suc i)
        with \<open>j < Suc m\<close> m(3) show ?thesis by simp
      qed
    qed
    have 3: "Suc m < Suc n \<longrightarrow> score_after attempt (k + Suc m) > 0.90"
      using m(4) by simp
    from m(1) 1 2 3 show ?thesis
      by (intro exI [of _ "Suc m"]) simp
  qed
qed

lemma create_crf_run_state:
  "\<exists>m. m \<le> (if generate_fold then 10 else 1)
       \<and> create_crf_run attempt generate_fold = crf_state attempt m
       \<and> (\<forall>j < m. score_after attempt j \<le> 0.90)
       \<and> (m < (if generate_fold then 10 else 1) \<longrightarrow> score_after attempt m > 0.90)"
proof -
  have init: "\<lparr>final_score = 0, attempts = 0, logged = []\<rparr> = crf_state attempt 0"
    by (simp add: crf_state_def)
  show ?thesis
    using create_crf_loop_state [of "if generate_fold then 10 else 1" attempt 0]
    unfolding create_crf_run_def init by simp
qed

text \<open>
  Claim C3, as the code has it. create\_crf makes at least one and at most 10 attempts
  when the folds were freshly generated and exactly one attempt with the static folds; an
  attempt is made only while the score is at most 0.90, and the loop ends before its
  attempts are used up only with a score above 0.90; the attempts that raised are exactly
  the ones logged, and none of them ends the run; an attempt that raises leaves the score
  as it was, and the result is True exactly when the score left by the latest attempt
  that was scored (0 when none was) is strictly positive. So the result is \<open>s > 0\<close> when
  the last attempt made has the score \<open>s\<close>, and it is decided by an earlier attempt
  when the last attempt made raised.
\<close>

theorem create_crf_acceptance:
  "1 \<le> attempts (create_crf_run attempt generate_fold)
   \<and> attempts (create_crf_run attempt generate_fold) \<le> (if generate_fold then 10 else 1)
   \<and> (\<forall>j < attempts (create_crf_run attempt generate_fold). score_after attempt j \<le> 0.90)
   \<and> (attempts (create_crf_run attempt generate_fold) < (if generate_fold then 10 else 1)
        \<longrightarrow> score_after attempt (attempts (create_crf_run attempt generate_fold)) > 0.90)
   \<and> logged (create_crf_run attempt generate_fold)
       = filter (\<lambda>j. attempt j = Raises) [0..<attempts (create_crf_run attempt generate_fold)]
   \<and> create_crf attempt generate_fold
       = (score_after attempt (attempts (create_crf_run attempt generate_fold)) > 0)
   \<and> (\<forall>s. attempt (attempts (create_crf_run attempt generate_fold) - 1) = Scores s
        \<longrightarrow> create_crf attempt generate_fold = (s > 0))"
proof -
  obtain m where m: "m \<le> (if generate_fold then 10 else 1)"
      "create_crf_run attempt generate_fold = crf_state attempt m"
      "\<forall>j < m. score_after attempt j \<le> 0.90"
      "m < (if generate_fold then 10 else 1) \<longrightarrow> score_after attempt m > 0.90"
    using create_crf_run_state by blast
  have pos: "1 \<le> m"
  proof (rule ccontr)
    assume "\<not> 1 \<le> m"
    then have "m = 0" by simp
    with m(4) show False by (simp split: if_splits)
  qed
  have att: "attempts (create_crf_run attempt generate_fold) = m"
    by (simp add: m(2) crf_state_def)
  have res: "create_crf attempt generate_fold = (score_after attempt m > 0)"
    by (simp add: create_crf_def m(2) crf_state_def)
  have last: "\<forall>s. attempt (m - 1) = Scores s \<longrightarrow> score_after attempt m = s"
  proof (intro allI impI)
    fix s assume "attempt (m - 1) = Scores s"
    moreover from pos obtain k where "m = Suc k" by (cases m) auto
    ultimately show "score_after attempt m = s" by simp
  qed
  show ?thesis
    unfolding att res using pos m(1) m(3) m(4) last
    by (simp add: m(2) crf_state_def)
qed

theorem create_crf_acceptance_witness:
  "attempts (create_crf_run (\<lambda>k. if k = 0 then Raises else if k = 1 then Scores (1 / 2) else Scores (19 / 20)) True) = 3
   \<and> logged (create_crf_run (\<lambda>k. if k = 0 then Raises else if k = 1 then Scores (1 / 2) else Scores (19 / 20)) True) = [0]
   \<and> create_crf (\<lambda>k. if k = 0 then Raises else if k = 1 then Scores (1 / 2) else Scores (19 / 20)) True
   \<and> attempts (create_crf_run (\<lambda>k. Scores (1 / 2)) False) = 1
   \<and> create_crf (\<lambda>k. Scores (1 / 2)) False"
proof -
  let ?a = "\<lambda>k::nat. if k = 0 then Raises else if k = 1 then Scores (1 / 2) else Scores (19 / 20)"
  have run: "create_crf_run ?a True = \<lparr>final_score = 19 / 20, attempts = 3, logged = [0]\<rparr>"
    by (simp add: create_crf_run_def eval_nat_numeral)
  have run1: "create_crf_run (\<lambda>k. Scores (1 / 2)) False = \<lparr>final_score = 1 / 2, attempts = 1, logged = []\<rparr>"
    by (simp add: create_crf_run_def)
  have s: "?a (attempts (create_crf_run ?a True) - 1) = Scores (19 / 20)"
    by (simp add: run)
  have s1: "(\<lambda>k::nat. Scores (1 / 2)) (attempts (create_crf_run (\<lambda>k. Scores (1 / 2)) False) - 1) = Scores (1 / 2)"
    by simp
  from create_crf_acceptance [of ?a True] s
  have "create_crf ?a True = ((19 / 20 :: real) > 0)" by blast
  moreover from create_crf_acceptance [of "\<lambda>k. Scores (1 / 2)" False] s1
  have "create_crf (\<lambda>k. Scores (1 / 2)) False = ((1 / 2 :: real) > 0)" by blast
  ultimately show ?thesis by (simp add: run run1)
qed

text \<open>
  The claim as stated fails when the last attempt raises: the first attempt is scored
  0.5, the other nine raise, so the tenth and last attempt has no score, and the result
  is True.
\<close>

theorem create_crf_last_attempt_counterexample:
  "attempts (create_crf_run (\<lambda>k. if k = 0 then Scores (1 / 2) else Raises) True) = 10
   \<and> (if (9::nat) = 0 then Scores (1 / 2) else Raises) = Raises
   \<and> create_crf (\<lambda>k. if k = 0 then Scores (1 / 2) else Raises) True"
  by (simp add: create_crf_def create_crf_run_def eval_nat_numeral)

subsection \<open>The disambiguation table of get\_author\_pattern (C7)\<close>








subsection \<open>get\_author\_last\_name\_only never takes its handler (C10)\<close>


subsection \<open>extract\_doi on a DOI followed by a URL (C6)\<close>

lemma doi_cut_keeps_dot_before_url:
  "doi_cut ''doi:10.3847/1538-4357/aa7579. http://arxiv.org/abs/1703.00965''
     = ''doi:10.3847/1538-4357/aa7579. ''"
  by code_simp

lemma extract_doi_raises_on_match:
  "re_finditer DOI_ID_EXTRACTOR reference_str = match # others \<Longrightarrow> group 1 match \<noteq> [] \<Longrightarrow>
   extract_doi reference_str = Inl TypeError"
  by (simp add: extract_doi_def filter_getitem_def Let_def)

text \<open>
  Claim C6, at the input of the specification. The pattern matches (the match is the
  whole text), so the function comes to index the iterator of \<open>filter\<close> and raises
  TypeError instead of returning the DOI; the same happens for every text in which the
  pattern matches. At that point the text was cut at \<open>http://\<close> and ends in a dot and a
  space, so the test for a final dot had dropped nothing.
\<close>

theorem extract_doi_raises_on_doi_before_url:
  "map (group 1) (re_finditer DOI_ID_EXTRACTOR ''doi:10.3847/1538-4357/aa7579. http://arxiv.org/abs/1703.00965'')
     = [''doi:10.3847/1538-4357/aa7579. http://arxiv.org/abs/1703.00965'']
   \<and> extract_doi ''doi:10.3847/1538-4357/aa7579. http://arxiv.org/abs/1703.00965''
     = Inl TypeError"
  by code_simp

subsection \<open>The year of identify\_numeric\_tokens (C4)\<close>

lemma assign_leftovers_year: "nt_year (assign_leftovers the_rest f) = nt_year f"
  by (simp add: assign_leftovers_def)

lemma guess_numeric_year: "nt_year (guess_numeric reference_str the_rest f) = nt_year f"
  by (simp add: guess_numeric_def Let_def assign_leftovers_year split: prod.splits)

lemma identify_numeric_tokens_year_conv:
  "nt_year (identify_numeric_tokens year_now reference_str unknown)
     = fst (identify_year year_now reference_str)"
  by (simp add: identify_numeric_tokens_def Let_def guess_numeric_year split: prod.splits)

lemma identify_year_select:
  "fst (identify_year year_now reference_str) =
     (if length (select_year year_now reference_str) = 1
      then YearStr (hd (select_year year_now reference_str))
      else YearList (select_year year_now reference_str))"
  by (simp add: identify_year_def split: list.splits)

lemma select_year_cases:
  "select_year year_now reference_str =
     (if length (year_candidates reference_str) \<le> 1 then year_candidates reference_str
      else if filter (in_parenthesis reference_str) (year_candidates reference_str) \<noteq> []
      then [hd (filter (in_parenthesis reference_str) (year_candidates reference_str))]
      else filter (year_in_range year_now) (year_candidates reference_str))"
  by (auto simp: select_year_def Let_def split: list.splits)

text \<open>
  Claim C4, as the code has it. The year candidates are the distinct texts that the year
  pattern finds, in order. A single candidate is returned as it is, with no test of
  being numeric or of the range. With several candidates the first one that stands in
  parentheses is returned, again untested; when none does, the candidates that are
  numeric and within 1400 and the current year are kept, and a year is returned only when
  exactly one remains, which is then numeric and in the range. In every other case the
  result holds no year text but the list of candidates left.
\<close>

theorem identify_numeric_tokens_year:
  "nt_year (identify_numeric_tokens year_now reference_str unknown) =
     (if length (year_candidates reference_str) = 1
      then YearStr (hd (year_candidates reference_str))
      else if length (year_candidates reference_str) > 1
              \<and> filter (in_parenthesis reference_str) (year_candidates reference_str) \<noteq> []
      then YearStr (hd (filter (in_parenthesis reference_str) (year_candidates reference_str)))
      else if length (filter (year_in_range year_now) (year_candidates reference_str)) = 1
      then YearStr (hd (filter (year_in_range year_now) (year_candidates reference_str)))
      else YearList (filter (year_in_range year_now) (year_candidates reference_str)))
   \<and> (\<forall>y. length (year_candidates reference_str) > 1
          \<and> filter (in_parenthesis reference_str) (year_candidates reference_str) = []
          \<and> nt_year (identify_numeric_tokens year_now reference_str unknown) = YearStr y
        \<longrightarrow> str_isdigit y \<and> year_earliest \<le> str_to_int y \<and> str_to_int y \<le> year_now)"
proof -
  let ?c = "year_candidates reference_str"
  have main: "nt_year (identify_numeric_tokens year_now reference_str unknown) =
     (if length ?c = 1 then YearStr (hd ?c)
      else if length ?c > 1 \<and> filter (in_parenthesis reference_str) ?c \<noteq> []
      then YearStr (hd (filter (in_parenthesis reference_str) ?c))
      else if length (filter (year_in_range year_now) ?c) = 1
      then YearStr (hd (filter (year_in_range year_now) ?c))
      else YearList (filter (year_in_range year_now) ?c))"
  proof (cases "length ?c \<le> 1")
    case True
    then have "length ?c = 1 \<or> ?c = []" by (cases ?c) auto
    then show ?thesis
      using True
      by (auto simp: identify_numeric_tokens_year_conv identify_year_select select_year_cases)
  next
    case False
    then show ?thesis
      by (simp add: identify_numeric_tokens_year_conv identify_year_select select_year_cases)
  qed
  have rng: "\<forall>y. length ?c > 1 \<and> filter (in_parenthesis reference_str) ?c = []
          \<and> nt_year (identify_numeric_tokens year_now reference_str unknown) = YearStr y
        \<longrightarrow> str_isdigit y \<and> year_earliest \<le> str_to_int y \<and> str_to_int y \<le> year_now"
  proof (intro allI impI)
    fix y
    assume a: "length ?c > 1 \<and> filter (in_parenthesis reference_str) ?c = []
          \<and> nt_year (identify_numeric_tokens year_now reference_str unknown) = YearStr y"
    then have "length (filter (year_in_range year_now) ?c) = 1
               \<and> y = hd (filter (year_in_range year_now) ?c)"
      unfolding main by (auto split: if_splits)
    then have "y \<in> set (filter (year_in_range year_now) ?c)"
      by (cases "filter (year_in_range year_now) ?c") auto
    then show "str_isdigit y \<and> year_earliest \<le> str_to_int y \<and> str_to_int y \<le> year_now"
      by (simp add: year_in_range_def)
  qed
  from main rng show ?thesis by blast
qed

theorem identify_numeric_tokens_year_witness:
  "nt_year (identify_numeric_tokens 2026 ''Smith 1066, Jones 1999, ApJ'' []) = YearStr ''1999''
   \<and> str_isdigit ''1999'' \<and> year_earliest \<le> str_to_int ''1999'' \<and> str_to_int ''1999'' \<le> 2026"
proof -
  let ?s = "''Smith 1066, Jones 1999, ApJ''"
  have l: "length (year_candidates ?s) = 2"
    by code_simp
  have p: "filter (in_parenthesis ?s) (year_candidates ?s) = []"
    by code_simp
  have r: "filter (year_in_range 2026) (year_candidates ?s) = [''1999'']"
    by code_simp
  note t = identify_numeric_tokens_year [of 2026 ?s "[]"]
  from t have y: "nt_year (identify_numeric_tokens 2026 ?s []) = YearStr ''1999''"
    by (simp only: l p r) simp
  from t have "length (year_candidates ?s) > 1
          \<and> filter (in_parenthesis ?s) (year_candidates ?s) = []
          \<and> nt_year (identify_numeric_tokens 2026 ?s []) = YearStr ''1999''
        \<longrightarrow> str_isdigit ''1999'' \<and> year_earliest \<le> str_to_int ''1999'' \<and> str_to_int ''1999'' \<le> 2026"
    by blast
  with l p y show ?thesis by simp
qed

text \<open>
  The claim as stated fails for a single candidate: 1066 is returned although it is below
  1400.
\<close>

theorem identify_numeric_tokens_year_counterexample:
  "nt_year (identify_numeric_tokens 2026 ''Hastings 1066, Battle'' []) = YearStr ''1066''
   \<and> \<not> year_earliest \<le> str_to_int ''1066''"
  by code_simp

subsection \<open>The leftover numeric tokens of identify\_numeric\_tokens (C5)\<close>

lemma assign_leftovers_flat:
  "assign_leftovers the_rest g =
     (if length the_rest = 3 \<and> nt_volume g = [] \<and> nt_issue g = [] \<and> nt_page g = []
      then g\<lparr>nt_volume := the_rest ! 0, nt_issue := the_rest ! 1, nt_page := the_rest ! 2\<rparr>
      else if length the_rest = 2 \<and> nt_volume g = [] \<and> nt_page g = []
      then g\<lparr>nt_volume := the_rest ! 0, nt_page := the_rest ! 1\<rparr>
      else if length the_rest = 2 \<and> nt_volume g = []
      then g\<lparr>nt_volume := the_rest ! 0, nt_issue := the_rest ! 1\<rparr>
      else if length the_rest = 2 \<and> nt_page g = []
      then g\<lparr>nt_issue := the_rest ! 0, nt_page := the_rest ! 1\<rparr>
      else if length the_rest = 1 \<and> nt_volume g = [] then g\<lparr>nt_volume := the_rest ! 0\<rparr>
      else if length the_rest = 1 \<and> nt_page g = [] then g\<lparr>nt_page := the_rest ! 0\<rparr>
      else if length the_rest = 1 then g\<lparr>nt_issue := the_rest ! 0\<rparr>
      else if length the_rest > 3 then g
      else g\<lparr>nt_unknown := concatenate (nt_unknown g) (str_join '' '' the_rest)\<rparr>)"
  by (auto simp: assign_leftovers_def)

text \<open>
  Claim C5, as the code has it. The guesses are made only while one of volume, page and
  issue is still empty: when all three are set (as by a compact layout), the leftovers
  are assigned to nothing and unknown stays as it is. Otherwise the other words of the
  text are added to unknown, and, when there are leftovers and the volume is empty, the
  leftovers before the first all-digit one are moved to unknown (all of them when none
  is all digits). Of what is then left: 3 leftovers with volume, issue and page empty
  become volume, issue, page; of 2 leftovers the first becomes the volume when that is
  empty, and the second the page when that is empty and else the issue; with the volume
  set and the page empty the first becomes the issue and the second the page; a single
  leftover becomes the volume, else the page, else the issue; more than 3 leftovers are
  assigned to nothing and are not added to unknown; in every other case (2 leftovers with
  volume and page set, 3 leftovers with a field set) the leftovers go to unknown.
\<close>

theorem guess_numeric_cases:
  "(nt_volume f \<noteq> [] \<and> nt_page f \<noteq> [] \<and> nt_issue f \<noteq> [] \<longrightarrow>
      guess_numeric reference_str leftovers f = f)
   \<and> (nt_volume f = [] \<or> nt_page f = [] \<or> nt_issue f = [] \<longrightarrow>
      (\<forall>words the_rest unknown.
         words = concatenate (nt_unknown f)
                   (str_join '' '' (filter (\<lambda>elem. elem \<notin> set leftovers \<and> is_identifying_word elem = 0)
                                        (findall0 MATCH_A_WORD reference_str)))
         \<and> (the_rest, unknown) =
              (if nt_volume f \<noteq> [] then (leftovers, words)
               else if list_ex str_isdigit leftovers
               then (dropWhile (\<lambda>elem. \<not> str_isdigit elem) leftovers,
                     concatenate words
                       (str_join '' '' (filter (\<lambda>n. n \<notin> set (dropWhile (\<lambda>elem. \<not> str_isdigit elem) leftovers))
                                            leftovers)))
               else ([], concatenate words (str_join '' '' leftovers)))
         \<longrightarrow> guess_numeric reference_str leftovers f =
               (if leftovers = [] then f\<lparr>nt_unknown := words\<rparr>
                else if length the_rest = 3 \<and> nt_volume f = [] \<and> nt_issue f = [] \<and> nt_page f = []
                then f\<lparr>nt_unknown := unknown, nt_volume := the_rest ! 0, nt_issue := the_rest ! 1,
                       nt_page := the_rest ! 2\<rparr>
                else if length the_rest = 2 \<and> nt_volume f = [] \<and> nt_page f = []
                then f\<lparr>nt_unknown := unknown, nt_volume := the_rest ! 0, nt_page := the_rest ! 1\<rparr>
                else if length the_rest = 2 \<and> nt_volume f = []
                then f\<lparr>nt_unknown := unknown, nt_volume := the_rest ! 0, nt_issue := the_rest ! 1\<rparr>
                else if length the_rest = 2 \<and> nt_page f = []
                then f\<lparr>nt_unknown := unknown, nt_issue := the_rest ! 0, nt_page := the_rest ! 1\<rparr>
                else if length the_rest = 1 \<and> nt_volume f = []
                then f\<lparr>nt_unknown := unknown, nt_volume := the_rest ! 0\<rparr>
                else if length the_rest = 1 \<and> nt_page f = []
                then f\<lparr>nt_unknown := unknown, nt_page := the_rest ! 0\<rparr>
                else if length the_rest = 1
                then f\<lparr>nt_unknown := unknown, nt_issue := the_rest ! 0\<rparr>
                else if length the_rest > 3 then f\<lparr>nt_unknown := unknown\<rparr>
                else f\<lparr>nt_unknown := concatenate unknown (str_join '' '' the_rest)\<rparr>)))"
proof (intro conjI impI allI)
  assume "nt_volume f \<noteq> [] \<and> nt_page f \<noteq> [] \<and> nt_issue f \<noteq> []"
  then show "guess_numeric reference_str leftovers f = f"
    by (simp add: guess_numeric_def)
next
  fix words the_rest unknown
  assume g: "nt_volume f = [] \<or> nt_page f = [] \<or> nt_issue f = []"
  assume a: "words = concatenate (nt_unknown f)
                   (str_join '' '' (filter (\<lambda>elem. elem \<notin> set leftovers \<and> is_identifying_word elem = 0)
                                        (findall0 MATCH_A_WORD reference_str)))
         \<and> (the_rest, unknown) =
              (if nt_volume f \<noteq> [] then (leftovers, words)
               else if list_ex str_isdigit leftovers
               then (dropWhile (\<lambda>elem. \<not> str_isdigit elem) leftovers,
                     concatenate words
                       (str_join '' '' (filter (\<lambda>n. n \<notin> set (dropWhile (\<lambda>elem. \<not> str_isdigit elem) leftovers))
                                            leftovers)))
               else ([], concatenate words (str_join '' '' leftovers)))"
  have t: "trim_leftovers (nt_volume f) leftovers words = (the_rest, unknown)"
    using a by (simp add: trim_leftovers_def Let_def split: if_splits)
  have "guess_numeric reference_str leftovers f =
          (if leftovers = [] then f\<lparr>nt_unknown := words\<rparr>
           else assign_leftovers the_rest (f\<lparr>nt_unknown := unknown\<rparr>))"
    using g a t by (auto simp: guess_numeric_def Let_def)
  then show "guess_numeric reference_str leftovers f =
               (if leftovers = [] then f\<lparr>nt_unknown := words\<rparr>
                else if length the_rest = 3 \<and> nt_volume f = [] \<and> nt_issue f = [] \<and> nt_page f = []
                then f\<lparr>nt_unknown := unknown, nt_volume := the_rest ! 0, nt_issue := the_rest ! 1,
                       nt_page := the_rest ! 2\<rparr>
                else if length the_rest = 2 \<and> nt_volume f = [] \<and> nt_page f = []
                then f\<lparr>nt_unknown := unknown, nt_volume := the_rest ! 0, nt_page := the_rest ! 1\<rparr>
                else if length the_rest = 2 \<and> nt_volume f = []
                then f\<lparr>nt_unknown := unknown, nt_volume := the_rest ! 0, nt_issue := the_rest ! 1\<rparr>
                else if length the_rest = 2 \<and> nt_page f = []
                then f\<lparr>nt_unknown := unknown, nt_issue := the_rest ! 0, nt_page := the_rest ! 1\<rparr>
                else if length the_rest = 1 \<and> nt_volume f = []
                then f\<lparr>nt_unknown := unknown, nt_volume := the_rest ! 0\<rparr>
                else if length the_rest = 1 \<and> nt_page f = []
                then f\<lparr>nt_unknown := unknown, nt_page := the_rest ! 0\<rparr>
                else if length the_rest = 1
                then f\<lparr>nt_unknown := unknown, nt_issue := the_rest ! 0\<rparr>
                else if length the_rest > 3 then f\<lparr>nt_unknown := unknown\<rparr>
                else f\<lparr>nt_unknown := concatenate unknown (str_join '' '' the_rest)\<rparr>)"
    by (simp only: assign_leftovers_flat) simp
qed

theorem guess_numeric_cases_witness:
  "guess_numeric ''Nature    99'' [''99'']
       \<lparr>nt_page = ''471'', nt_year = YearList [], nt_volume = ''507'', nt_issue = ''12'', nt_unknown = []\<rparr>
     = \<lparr>nt_page = ''471'', nt_year = YearList [], nt_volume = ''507'', nt_issue = ''12'', nt_unknown = []\<rparr>
   \<and> guess_numeric '', , ApJ 12 (3): '' [''12'', ''3'']
       \<lparr>nt_page = ''345-350'', nt_year = YearStr ''1999'', nt_volume = [], nt_issue = [], nt_unknown = []\<rparr>
     = \<lparr>nt_page = ''345-350'', nt_year = YearStr ''1999'', nt_volume = ''12'', nt_issue = ''3'',
        nt_unknown = ''ApJ''\<rparr>"
proof -
  let ?f = "\<lparr>nt_page = ''471'', nt_year = YearList [], nt_volume = ''507'', nt_issue = ''12'', nt_unknown = []\<rparr>"
  let ?g = "\<lparr>nt_page = ''345-350'', nt_year = YearStr ''1999'', nt_volume = [], nt_issue = [], nt_unknown = []\<rparr>"
  have h: "nt_volume ?f \<noteq> [] \<and> nt_page ?f \<noteq> [] \<and> nt_issue ?f \<noteq> []" by simp
  have 1: "guess_numeric ''Nature    99'' [''99''] ?f = ?f"
    by (rule guess_numeric_cases [THEN conjunct1, rule_format, OF h])
  have k: "nt_volume ?g = [] \<or> nt_page ?g = [] \<or> nt_issue ?g = []" by simp
  have w: "''ApJ'' = concatenate (nt_unknown ?g)
                   (str_join '' '' (filter (\<lambda>elem. elem \<notin> set [''12'', ''3''] \<and> is_identifying_word elem = 0)
                                        (findall0 MATCH_A_WORD '', , ApJ 12 (3): '')))
         \<and> ([''12'', ''3''], ''ApJ'') =
              (if nt_volume ?g \<noteq> [] then ([''12'', ''3''], ''ApJ'')
               else if list_ex str_isdigit [''12'', ''3'']
               then (dropWhile (\<lambda>elem. \<not> str_isdigit elem) [''12'', ''3''],
                     concatenate ''ApJ''
                       (str_join '' '' (filter (\<lambda>n. n \<notin> set (dropWhile (\<lambda>elem. \<not> str_isdigit elem) [''12'', ''3'']))
                                            [''12'', ''3''])))
               else ([], concatenate ''ApJ'' (str_join '' '' [''12'', ''3''])))"
    by code_simp
  have 2: "guess_numeric '', , ApJ 12 (3): '' [''12'', ''3''] ?g =
             ?g\<lparr>nt_unknown := ''ApJ'', nt_volume := [''12'', ''3''] ! 0, nt_issue := [''12'', ''3''] ! 1\<rparr>"
    using guess_numeric_cases [THEN conjunct2, rule_format, OF k w] by simp
  from 1 2 show ?thesis by simp
qed

text \<open>
  The claim as stated fails for more than 3 leftovers: the four tokens 11, 22, 33, 44 are
  left over, and unknown holds only the word A.
\<close>

theorem identify_numeric_tokens_leftovers_counterexample:
  "first_seen (map (group 1) (re_finditer IS_MOSTLY_DIGIT ''A 11 22 33 44'')) = [''11'', ''22'', ''33'', ''44'']
   \<and> identify_numeric_tokens 2026 ''A 11 22 33 44'' []
       = \<lparr>nt_page = [], nt_year = YearList [], nt_volume = [], nt_issue = [], nt_unknown = ''A''\<rparr>"
  by code_simp

subsection \<open>The keys of the parsed reference record (C2)\<close>
















































subsection \<open>The length of the feature vector (C1)\<close>








lemma bind_err_returns: "\<not> isl m \<Longrightarrow> (\<And>x. \<not> isl (f x)) \<Longrightarrow> \<not> isl (bind_err m f)"
  by (cases m) (simp_all add: bind_err_def)






























end
